theory Spec2Isabelle
  imports Complex_Main
begin

section \<open>Numbers, absent values and decimals\<close>

text \<open>
  The fields of the input record are JavaScript numbers. The type
  \<open>CalculatePricesWithMarkupDiscountInput\<close> declares them as \<open>number\<close> (only
  \<open>tier0Price\<close> is optional), but the function tests them for truthiness and the
  test suite passes \<open>null\<close> and \<open>undefined\<close>, so a field is modelled as a value that is
  \<open>undefined\<close>, \<open>null\<close> or a number, and an input number is \<open>NaN\<close> or finite. A finite
  input is the rational that \<open>toString\<close> writes, which is what \<open>new Decimal(x)\<close> reads.
  Infinite inputs are left out.

  The arithmetic of decimal.js is modelled in two layers. In the first, exact layer the
  four operations return the exact rational result and \<open>toNumber\<close> is the identity. It
  agrees with the library wherever every intermediate result has at most 20 significant
  digits and every returned value is a double; it carries the theorems on the branches,
  the cap and the order of prices. The second layer, with names ending in \<open>_js\<close>, is the
  library as it is configured by default: every result of an operation is rounded to 20
  significant digits, half up, and \<open>toNumber\<close> goes to the nearest double. It carries the
  theorems that pin a returned value to a product.
\<close>

datatype number = NaN | Fin rat

datatype jsval = Undefined | Null | Number number

type_synonym decimal = number

datatype error = DecimalError

text \<open>JavaScript truthiness of a field: \<open>undefined\<close>, \<open>null\<close>, \<open>NaN\<close> and zero are falsy.\<close>

fun truthy :: "jsval \<Rightarrow> bool" where
  "truthy Undefined = False"
| "truthy Null = False"
| "truthy (Number NaN) = False"
| "truthy (Number (Fin x)) = (x \<noteq> 0)"

text \<open>
  The constructor \<open>new Decimal(v)\<close> accepts a number and throws
  \<open>[DecimalError] Invalid argument\<close> on \<open>undefined\<close> and \<open>null\<close>.
\<close>

fun new_Decimal :: "jsval \<Rightarrow> error + decimal" where
  "new_Decimal (Number n) = Inr n"
| "new_Decimal Undefined = Inl DecimalError"
| "new_Decimal Null = Inl DecimalError"

definition toNumber :: "decimal \<Rightarrow> number" where
  "toNumber d = d"

fun times_dec :: "decimal \<Rightarrow> decimal \<Rightarrow> decimal" where
  "times_dec (Fin x) (Fin y) = Fin (x * y)"
| "times_dec _ _ = NaN"

fun plus_dec :: "decimal \<Rightarrow> decimal \<Rightarrow> decimal" where
  "plus_dec (Fin x) (Fin y) = Fin (x + y)"
| "plus_dec _ _ = NaN"

fun minus_dec :: "decimal \<Rightarrow> decimal \<Rightarrow> decimal" where
  "minus_dec (Fin x) (Fin y) = Fin (x - y)"
| "minus_dec _ _ = NaN"

text \<open>
  Division: \<open>0 / 0\<close> is \<open>NaN\<close> in decimal.js and \<open>x / 0\<close> is infinite for \<open>x \<noteq> 0\<close>; the
  latter is outside this model and is never reached by the function below.
\<close>

fun dividedBy :: "decimal \<Rightarrow> decimal \<Rightarrow> decimal" where
  "dividedBy (Fin x) (Fin y) = (if y = 0 then NaN else Fin (x / y))"
| "dividedBy _ _ = NaN"

text \<open>Comparisons with \<open>NaN\<close> are false.\<close>

fun lessThan_dec :: "decimal \<Rightarrow> decimal \<Rightarrow> bool" where
  "lessThan_dec (Fin x) (Fin y) = (x < y)"
| "lessThan_dec _ _ = False"

fun greaterThan_dec :: "decimal \<Rightarrow> decimal \<Rightarrow> bool" where
  "greaterThan_dec (Fin x) (Fin y) = (x > y)"
| "greaterThan_dec _ _ = False"

fun isZero :: "decimal \<Rightarrow> bool" where
  "isZero (Fin x) = (x = 0)"
| "isZero NaN = False"

text \<open>
  \<open>ROUND_HALF_UP\<close> of decimal.js rounds to the nearest neighbour and, when equidistant,
  away from zero.
\<close>

definition round_half_up :: "nat \<Rightarrow> rat \<Rightarrow> rat" where
  "round_half_up dp x = sgn x * of_int \<lfloor>\<bar>x\<bar> * 10 ^ dp + 1 / 2\<rfloor> / 10 ^ dp"

fun toDecimalPlaces :: "nat \<Rightarrow> decimal \<Rightarrow> decimal" where
  "toDecimalPlaces dp (Fin x) = Fin (round_half_up dp x)"
| "toDecimalPlaces dp NaN = NaN"

section \<open>The pricing function\<close>

definition ONE_MILLION_IN_CENTS :: number where
  "ONE_MILLION_IN_CENTS = Fin 100000000"

record CalculatePricesWithMarkupDiscountInput =
  promoMarkupDiscount :: jsval
  spotPrice :: jsval
  wholesaleMarkup :: jsval
  markupByTier :: jsval
  actualMetalWeight :: jsval
  tier0Price :: jsval
  maximumPremiumDiscount :: jsval

record CalculatedPricesWithMarkupDiscount =
  originalPrice :: number
  calculatedPrice :: number
  totalDiscount :: number
  totalDiscountPercent :: number

text \<open>A thrown exception ends the call: the rest runs only on a value.\<close>

definition bind_result :: "error + 'a \<Rightarrow> ('a \<Rightarrow> error + 'b) \<Rightarrow> error + 'b" where
  "bind_result r f = (case r of Inl e \<Rightarrow> Inl e | Inr x \<Rightarrow> f x)"

text \<open>
  The reference price (line 84): \<open>tier0Price\<close> when it is truthy, the unrounded tier
  price otherwise.
\<close>

definition tier0PriceDecimal :: "jsval \<Rightarrow> decimal \<Rightarrow> error + decimal" where
  "tier0PriceDecimal t0 tierPrice = (if truthy t0 then new_Decimal t0 else Inr tierPrice)"

text \<open>
  The local variables of the discount path that the cap reads or reassigns: the premium
  of the reference price over melt value, and the three variables declared with \<open>let\<close>.
\<close>

record pricing_locals =
  tier0Premium :: decimal
  discountedFinalPrice :: decimal
  totalDiscount_dec :: decimal
  totalDiscountPercent_dec :: decimal

text \<open>
  The discount path before the cap (lines 78 to 107): wholesale price, melt value,
  premium, house markup clamped at zero, the discount on the house markup, the total
  discount against the reference price and its percentage of the premium.
\<close>

definition discountBeforeCap ::
  "decimal \<Rightarrow> decimal \<Rightarrow> decimal \<Rightarrow> decimal \<Rightarrow> decimal \<Rightarrow> decimal \<Rightarrow> pricing_locals" where
  "discountBeforeCap spot wholesale weight promo tierPrice t0 =
     (let nabxPrice = times_dec spot wholesale;
          meltValue = times_dec spot weight;
          premium = minus_dec t0 meltValue;
          houseMarkup = minus_dec tierPrice nabxPrice;
          houseMarkup = (if lessThan_dec houseMarkup (Fin 0) then Fin 0 else houseMarkup);
          markupDiscountRate = dividedBy promo (Fin 100);
          discountedHouseMarkup = times_dec houseMarkup (minus_dec (Fin 1) markupDiscountRate);
          dfp = plus_dec nabxPrice discountedHouseMarkup;
          td = minus_dec t0 dfp;
          tdp = (if isZero premium then Fin 0
                 else times_dec (dividedBy td premium) (Fin 100))
      in \<lparr>tier0Premium = premium, discountedFinalPrice = dfp, totalDiscount_dec = td,
          totalDiscountPercent_dec = tdp\<rparr>)"

text \<open>The cap (lines 110 to 118), on the reference price \<open>t0\<close>.\<close>

definition applyCap :: "pricing_locals \<Rightarrow> decimal \<Rightarrow> decimal \<Rightarrow> pricing_locals" where
  "applyCap v maxDiscount t0 =
     (if greaterThan_dec (totalDiscountPercent_dec v) maxDiscount then
        let cappedDiscountAmount =
              dividedBy (times_dec (tier0Premium v) maxDiscount) (Fin 100)
        in v\<lparr>discountedFinalPrice := minus_dec t0 cappedDiscountAmount,
             totalDiscount_dec := cappedDiscountAmount,
             totalDiscountPercent_dec := maxDiscount\<rparr>
      else v)"

definition calculatePricesWithMarkupDiscount ::
  "CalculatePricesWithMarkupDiscountInput \<Rightarrow> error + CalculatedPricesWithMarkupDiscount" where
  "calculatePricesWithMarkupDiscount input =
     (if \<not> truthy (spotPrice input) \<or> \<not> truthy (markupByTier input) then
        Inr \<lparr>originalPrice = ONE_MILLION_IN_CENTS, calculatedPrice = ONE_MILLION_IN_CENTS,
             totalDiscount = Fin 0, totalDiscountPercent = Fin 0\<rparr>
      else
        bind_result (new_Decimal (spotPrice input)) (\<lambda>spot.
        bind_result (new_Decimal (markupByTier input)) (\<lambda>markup.
          let tierPrice = times_dec spot markup;
              formattedTierPrice = toNumber (toDecimalPlaces 0 tierPrice)
          in
          if \<not> truthy (promoMarkupDiscount input) \<or> \<not> truthy (wholesaleMarkup input)
             \<or> \<not> truthy (actualMetalWeight input) then
            Inr \<lparr>originalPrice = formattedTierPrice, calculatedPrice = formattedTierPrice,
                 totalDiscount = Fin 0, totalDiscountPercent = Fin 0\<rparr>
          else
            bind_result (new_Decimal (wholesaleMarkup input)) (\<lambda>wholesale.
            bind_result (new_Decimal (actualMetalWeight input)) (\<lambda>weight.
            bind_result (tier0PriceDecimal (tier0Price input) tierPrice) (\<lambda>t0.
            bind_result (new_Decimal (promoMarkupDiscount input)) (\<lambda>promo.
              let v = discountBeforeCap spot wholesale weight promo tierPrice t0
              in
              bind_result (new_Decimal (maximumPremiumDiscount input)) (\<lambda>maxDiscount.
                let v = applyCap v maxDiscount t0
                in Inr \<lparr>originalPrice = formattedTierPrice,
                        calculatedPrice =
                          toNumber (toDecimalPlaces 0 (discountedFinalPrice v)),
                        totalDiscount =
                          toNumber (toDecimalPlaces 0 (totalDiscount_dec v)),
                        totalDiscountPercent =
                          toNumber (toDecimalPlaces 2 (totalDiscountPercent_dec v))\<rparr>
              ))))))))"

text \<open>The inputs that pass both guards (lines 52 and 68) and reach the discount path.\<close>

definition reachesDiscountPath :: "CalculatePricesWithMarkupDiscountInput \<Rightarrow> bool" where
  "reachesDiscountPath input \<longleftrightarrow>
     truthy (spotPrice input) \<and> truthy (markupByTier input)
     \<and> truthy (promoMarkupDiscount input) \<and> truthy (wholesaleMarkup input)
     \<and> truthy (actualMetalWeight input)"

section \<open>The arithmetic of decimal.js\<close>




















section \<open>Auxiliary facts\<close>

lemma floor_rat_numeral: "\<lfloor>(numeral a :: rat) / numeral b\<rfloor> = numeral a div numeral b"
  using floor_divide_of_int_eq[of "numeral a" "numeral b", where ?'a = rat] by simp

lemma truthy_iff: "truthy v \<longleftrightarrow> (\<exists>x. v = Number (Fin x) \<and> x \<noteq> 0)"
  by (cases v rule: truthy.cases) simp_all

lemma falsy_iff: "\<not> truthy v \<longleftrightarrow> v \<in> {Number (Fin 0), Null, Undefined, Number NaN}"
  by (cases v rule: truthy.cases) simp_all

lemma tier0PriceDecimal_Fin: "\<exists>y. tier0PriceDecimal v (Fin t) = Inr (Fin y)"
  by (cases v rule: truthy.cases) (simp_all add: tier0PriceDecimal_def)

text \<open>
  Every input that reaches the discount path has five finite non-zero fields; the
  theorems on the discount path are stated on inputs of this form.
\<close>

lemma discount_path_input:
  assumes "reachesDiscountPath input"
  shows "\<exists>p s w m a. p \<noteq> 0 \<and> s \<noteq> 0 \<and> w \<noteq> 0 \<and> m \<noteq> 0 \<and> a \<noteq> 0
     \<and> input = \<lparr>promoMarkupDiscount = Number (Fin p), spotPrice = Number (Fin s),
            wholesaleMarkup = Number (Fin w), markupByTier = Number (Fin m),
            actualMetalWeight = Number (Fin a), tier0Price = tier0Price input,
            maximumPremiumDiscount = maximumPremiumDiscount input\<rparr>"
  using assms by (cases input) (auto simp add: reachesDiscountPath_def truthy_iff)

text \<open>Rounding half up (ties away from zero) is monotone.\<close>

lemma round_half_up_mono:
  assumes xy: "x \<le> y"
  shows "round_half_up dp x \<le> round_half_up dp y"
proof -
  have pos: "(0::rat) < 10 ^ dp" by simp
  let ?f = "\<lambda>z::rat. rat_of_int \<lfloor>\<bar>z\<bar> * 10 ^ dp + 1 / 2\<rfloor>"
  have nonneg: "0 \<le> ?f z" for z
    by (simp add: pos)
  consider "0 \<le> x" | "x < 0" "0 \<le> y" | "y < 0" using xy by linarith
  then show ?thesis
  proof cases
    case 1
    then have "\<bar>x\<bar> * 10 ^ dp + 1 / 2 \<le> \<bar>y\<bar> * 10 ^ dp + 1 / 2"
      using xy by (simp add: mult_right_mono)
    then have "?f x \<le> ?f y" by (simp add: floor_mono)
    then show ?thesis unfolding round_half_up_def using 1 xy pos
      by (auto simp add: sgn_if divide_right_mono split: if_splits)
  next
    case 2
    have "sgn x * ?f x / 10 ^ dp \<le> 0" using 2 nonneg[of x] pos
      by (simp add: sgn_if divide_nonneg_pos)
    moreover have "0 \<le> sgn y * ?f y / 10 ^ dp" using 2 nonneg[of y] pos
      by (simp add: sgn_if divide_nonneg_pos)
    ultimately show ?thesis unfolding round_half_up_def by linarith
  next
    case 3
    then have "\<bar>y\<bar> * 10 ^ dp + 1 / 2 \<le> \<bar>x\<bar> * 10 ^ dp + 1 / 2"
      using xy by (simp add: mult_right_mono)
    then have "?f y \<le> ?f x" by (simp add: floor_mono)
    then show ?thesis unfolding round_half_up_def using 3 xy pos
      by (auto simp add: sgn_if divide_right_mono split: if_splits)
  qed
qed



text \<open>The local variables before the cap, on finite operands.\<close>

lemma discountBeforeCap_Fin:
  "discountBeforeCap (Fin s) (Fin w) (Fin a) (Fin p) (Fin tp) (Fin t0) =
     \<lparr>tier0Premium = Fin (t0 - s * a),
      discountedFinalPrice = Fin (s * w + max (tp - s * w) 0 * (1 - p / 100)),
      totalDiscount_dec = Fin (t0 - (s * w + max (tp - s * w) 0 * (1 - p / 100))),
      totalDiscountPercent_dec =
        (if t0 - s * a = 0 then Fin 0
         else Fin ((t0 - (s * w + max (tp - s * w) 0 * (1 - p / 100))) / (t0 - s * a) * 100))\<rparr>"
  by (simp add: discountBeforeCap_def Let_def max_def)

text \<open>The result on the discount path when the cap is a number.\<close>

lemma discount_path_result:
  assumes "s \<noteq> 0" "m \<noteq> 0" "p \<noteq> 0" "w \<noteq> 0" "a \<noteq> 0"
    and "tier0PriceDecimal t0v (Fin (s * m)) = Inr t0"
  shows "calculatePricesWithMarkupDiscount
           \<lparr>promoMarkupDiscount = Number (Fin p), spotPrice = Number (Fin s),
            wholesaleMarkup = Number (Fin w), markupByTier = Number (Fin m),
            actualMetalWeight = Number (Fin a), tier0Price = t0v,
            maximumPremiumDiscount = Number mx\<rparr>
         = Inr \<lparr>originalPrice = Fin (round_half_up 0 (s * m)),
                calculatedPrice = toDecimalPlaces 0 (discountedFinalPrice
                  (applyCap (discountBeforeCap (Fin s) (Fin w) (Fin a) (Fin p) (Fin (s * m)) t0) mx t0)),
                totalDiscount = toDecimalPlaces 0 (totalDiscount_dec
                  (applyCap (discountBeforeCap (Fin s) (Fin w) (Fin a) (Fin p) (Fin (s * m)) t0) mx t0)),
                totalDiscountPercent = toDecimalPlaces 2 (totalDiscountPercent_dec
                  (applyCap (discountBeforeCap (Fin s) (Fin w) (Fin a) (Fin p) (Fin (s * m)) t0) mx t0))\<rparr>"
  using assms
  by (simp add: calculatePricesWithMarkupDiscount_def bind_result_def Let_def toNumber_def)

lemma applyCap_percent_le:
  "\<not> greaterThan_dec (totalDiscountPercent_dec (applyCap v mx t0)) mx"
  by (cases mx; cases "totalDiscountPercent_dec v") (simp_all add: applyCap_def Let_def)

lemma toDecimalPlaces_mono:
  "\<not> greaterThan_dec x y \<Longrightarrow> \<not> greaterThan_dec (toDecimalPlaces dp x) (toDecimalPlaces dp y)"
  by (cases x; cases y) (simp_all add: round_half_up_mono not_less)

lemmas calc_defs = calculatePricesWithMarkupDiscount_def bind_result_def Let_def
  tier0PriceDecimal_def discountBeforeCap_def applyCap_def toNumber_def
  ONE_MILLION_IN_CENTS_def round_half_up_def floor_rat_numeral

subsection \<open>Significant digits and doubles\<close>























section \<open>The cap on the discount percentage\<close>

text \<open>
  Claim C1, as stated, fails: the returned percentage is rounded to two decimal places
  after the cap has been applied, so with a cap of 12.345 the documented example returns
  12.35, which exceeds the cap.
\<close>

theorem percent_exceeds_cap_counterexample:
  "calculatePricesWithMarkupDiscount
     \<lparr>promoMarkupDiscount = Number (Fin 20), spotPrice = Number (Fin 2000),
      wholesaleMarkup = Number (Fin (95 / 100)), markupByTier = Number (Fin (11 / 10)),
      actualMetalWeight = Number (Fin 1), tier0Price = Undefined,
      maximumPremiumDiscount = Number (Fin (12345 / 1000))\<rparr>
   = Inr \<lparr>originalPrice = Fin 2200, calculatedPrice = Fin 2175, totalDiscount = Fin 25,
          totalDiscountPercent = Fin (1235 / 100)\<rparr>
   \<and> greaterThan_dec (Fin (1235 / 100)) (Fin (12345 / 1000))"
  by (simp add: calc_defs)

text \<open>
  Claim C1, amended: on the discount path with a number as cap, the function returns, the
  returned \<open>totalDiscountPercent\<close> never exceeds \<open>maximumPremiumDiscount\<close> rounded half up
  to two decimal places, and whenever the percentage computed before the cap exceeds
  \<open>maximumPremiumDiscount\<close>, the returned \<open>totalDiscountPercent\<close> is exactly
  \<open>maximumPremiumDiscount\<close> rounded half up to two decimal places.
\<close>

theorem percent_capped:
  assumes "s \<noteq> 0" "m \<noteq> 0" "p \<noteq> 0" "w \<noteq> 0" "a \<noteq> 0"
    and "tier0PriceDecimal t0v (Fin (s * m)) = Inr t0"
  shows "\<exists>r. calculatePricesWithMarkupDiscount
           \<lparr>promoMarkupDiscount = Number (Fin p), spotPrice = Number (Fin s),
            wholesaleMarkup = Number (Fin w), markupByTier = Number (Fin m),
            actualMetalWeight = Number (Fin a), tier0Price = t0v,
            maximumPremiumDiscount = Number mx\<rparr> = Inr r
         \<and> \<not> greaterThan_dec (totalDiscountPercent r) (toDecimalPlaces 2 mx)
         \<and> (greaterThan_dec (totalDiscountPercent_dec
               (discountBeforeCap (Fin s) (Fin w) (Fin a) (Fin p) (Fin (s * m)) t0)) mx
             \<longrightarrow> totalDiscountPercent r = toDecimalPlaces 2 mx)"
proof -
  let ?v = "discountBeforeCap (Fin s) (Fin w) (Fin a) (Fin p) (Fin (s * m)) t0"
  have "\<not> greaterThan_dec (toDecimalPlaces 2 (totalDiscountPercent_dec (applyCap ?v mx t0)))
          (toDecimalPlaces 2 mx)"
    by (rule toDecimalPlaces_mono) (rule applyCap_percent_le)
  moreover have "greaterThan_dec (totalDiscountPercent_dec ?v) mx
      \<Longrightarrow> totalDiscountPercent_dec (applyCap ?v mx t0) = mx"
    by (simp add: applyCap_def Let_def)
  ultimately show ?thesis
    using discount_path_result [OF assms, of mx] by auto
qed

text \<open>The capped case of the test suite: spot 4944, tier markup 2, full promotion, cap 30.\<close>

theorem percent_capped_witness:
  "\<exists>r. calculatePricesWithMarkupDiscount
           \<lparr>promoMarkupDiscount = Number (Fin 100), spotPrice = Number (Fin 4944),
            wholesaleMarkup = Number (Fin (1119394649 / 1000000000)),
            markupByTier = Number (Fin 2),
            actualMetalWeight = Number (Fin 1), tier0Price = Number (Fin 9888),
            maximumPremiumDiscount = Number (Fin 30)\<rparr> = Inr r
         \<and> totalDiscountPercent r = Fin 30"
proof -
  have t0: "tier0PriceDecimal (Number (Fin 9888)) (Fin (4944 * 2)) = Inr (Fin 9888)"
    by (simp add: tier0PriceDecimal_def)
  have gt: "greaterThan_dec (totalDiscountPercent_dec
               (discountBeforeCap (Fin 4944) (Fin (1119394649 / 1000000000)) (Fin 1) (Fin 100)
                  (Fin (4944 * 2)) (Fin 9888))) (Fin 30)"
    by (simp add: discountBeforeCap_Fin)
  have r: "toDecimalPlaces 2 (Fin 30) = Fin 30"
    by (simp add: round_half_up_def floor_rat_numeral)
  show ?thesis
    using percent_capped [of 4944 2 100 "1119394649 / 1000000000" 1 "Number (Fin 9888)"
        "Fin 9888" "Fin 30"] t0 gt r
    by auto
qed

section \<open>The two guards\<close>

text \<open>
  Claim C2: when \<open>spotPrice\<close> or \<open>markupByTier\<close> is falsy (zero, \<open>null\<close>, \<open>undefined\<close> or
  \<open>NaN\<close>), the result is the fallback record: both prices are \<open>ONE_MILLION_IN_CENTS\<close>,
  which is 100000000, and both discount fields are zero.
\<close>

theorem fallback_result:
  assumes "spotPrice input \<in> {Number (Fin 0), Null, Undefined, Number NaN}
           \<or> markupByTier input \<in> {Number (Fin 0), Null, Undefined, Number NaN}"
  shows "calculatePricesWithMarkupDiscount input =
           Inr \<lparr>originalPrice = ONE_MILLION_IN_CENTS, calculatedPrice = ONE_MILLION_IN_CENTS,
                totalDiscount = Fin 0, totalDiscountPercent = Fin 0\<rparr>
         \<and> ONE_MILLION_IN_CENTS = Fin 100000000"
proof -
  from assms have "\<not> truthy (spotPrice input) \<or> \<not> truthy (markupByTier input)"
    using falsy_iff by blast
  then show ?thesis
    by (auto simp add: calculatePricesWithMarkupDiscount_def ONE_MILLION_IN_CENTS_def)
qed

theorem fallback_result_witness:
  "calculatePricesWithMarkupDiscount
     \<lparr>promoMarkupDiscount = Number (Fin 0), spotPrice = Number (Fin 4944),
      wholesaleMarkup = Number (Fin (1119394649 / 1000000000)), markupByTier = Undefined,
      actualMetalWeight = Number (Fin 1), tier0Price = Undefined,
      maximumPremiumDiscount = Number (Fin 70)\<rparr>
   = Inr \<lparr>originalPrice = Fin 100000000, calculatedPrice = Fin 100000000,
          totalDiscount = Fin 0, totalDiscountPercent = Fin 0\<rparr>"
  using fallback_result [of "\<lparr>promoMarkupDiscount = Number (Fin 0), spotPrice = Number (Fin 4944),
      wholesaleMarkup = Number (Fin (1119394649 / 1000000000)), markupByTier = Undefined,
      actualMetalWeight = Number (Fin 1), tier0Price = Undefined,
      maximumPremiumDiscount = Number (Fin 70)\<rparr>"]
  by simp



section \<open>The documented example\<close>

text \<open>
  Claim C4: for spot price 2000, tier markup 1.1, promotion 20, wholesale markup 0.95,
  weight 1, cap 50 and no \<open>tier0Price\<close>, the original price is 2200 and the calculated
  price is 2140.
\<close>

theorem documented_example:
  "calculatePricesWithMarkupDiscount
     \<lparr>promoMarkupDiscount = Number (Fin 20), spotPrice = Number (Fin 2000),
      wholesaleMarkup = Number (Fin (95 / 100)), markupByTier = Number (Fin (11 / 10)),
      actualMetalWeight = Number (Fin 1), tier0Price = Undefined,
      maximumPremiumDiscount = Number (Fin 50)\<rparr>
   = Inr \<lparr>originalPrice = Fin 2200, calculatedPrice = Fin 2140, totalDiscount = Fin 60,
          totalDiscountPercent = Fin 30\<rparr>"
  by (simp add: calc_defs)

theorem documented_example_witness:
  "map_sum id (\<lambda>r. (originalPrice r, calculatedPrice r))
     (calculatePricesWithMarkupDiscount
       \<lparr>promoMarkupDiscount = Number (Fin 20), spotPrice = Number (Fin 2000),
        wholesaleMarkup = Number (Fin (95 / 100)), markupByTier = Number (Fin (11 / 10)),
        actualMetalWeight = Number (Fin 1), tier0Price = Undefined,
        maximumPremiumDiscount = Number (Fin 50)\<rparr>)
   = Inr (Fin 2200, Fin 2140)"
  using documented_example by simp

section \<open>A tier priced below wholesale\<close>




section \<open>Monotonicity in the promotional discount\<close>




section \<open>The original price\<close>



section \<open>Totality\<close>

text \<open>
  Claim C8 holds of every input but one kind: on the discount path the comparison
  \<open>totalDiscountPercent.greaterThan(maximumPremiumDiscount)\<close> passes the cap to the
  Decimal constructor, which throws on \<open>undefined\<close> and \<open>null\<close>. The comment above that
  line announces a check of the cap "if specified", and every other field is guarded
  before it is used, so the missing guard is a defect of the code. The documented example
  without a cap raises \<open>DecimalError\<close> instead of returning a record.
\<close>

theorem throws_on_absent_cap:
  "calculatePricesWithMarkupDiscount
     \<lparr>promoMarkupDiscount = Number (Fin 20), spotPrice = Number (Fin 2000),
      wholesaleMarkup = Number (Fin (95 / 100)), markupByTier = Number (Fin (11 / 10)),
      actualMetalWeight = Number (Fin 1), tier0Price = Undefined,
      maximumPremiumDiscount = Undefined\<rparr>
   = Inl DecimalError"
  by (simp add: calc_defs)

theorem throws_on_absent_cap_witness:
  "\<forall>r. calculatePricesWithMarkupDiscount
     \<lparr>promoMarkupDiscount = Number (Fin 20), spotPrice = Number (Fin 2000),
      wholesaleMarkup = Number (Fin (95 / 100)), markupByTier = Number (Fin (11 / 10)),
      actualMetalWeight = Number (Fin 1), tier0Price = Undefined,
      maximumPremiumDiscount = Undefined\<rparr>
   \<noteq> Inr r"
  using throws_on_absent_cap by simp

text \<open>
  These are the only inputs on which the function raises: it returns a record exactly
  when the discount path is not reached or the cap is a number, \<open>NaN\<close> included.
\<close>

lemma returns_unless_cap_absent:
  "(\<exists>r. calculatePricesWithMarkupDiscount input = Inr r) \<longleftrightarrow>
     \<not> (reachesDiscountPath input \<and> maximumPremiumDiscount input \<in> {Undefined, Null})"
proof (cases "reachesDiscountPath input")
  case False
  then show ?thesis
    by (auto simp add: reachesDiscountPath_def calculatePricesWithMarkupDiscount_def
        bind_result_def Let_def truthy_iff)
next
  case True
  then obtain s m p w a where f: "spotPrice input = Number (Fin s)" "markupByTier input = Number (Fin m)"
    "promoMarkupDiscount input = Number (Fin p)" "wholesaleMarkup input = Number (Fin w)"
    "actualMetalWeight input = Number (Fin a)" and nz: "s \<noteq> 0" "m \<noteq> 0" "p \<noteq> 0" "w \<noteq> 0" "a \<noteq> 0"
    by (auto simp add: reachesDiscountPath_def truthy_iff)
  obtain y where t0: "tier0PriceDecimal (tier0Price input) (Fin (s * m)) = Inr (Fin y)"
    using tier0PriceDecimal_Fin by blast
  show ?thesis
    using True f nz t0
    by (cases "maximumPremiumDiscount input")
      (simp_all add: calculatePricesWithMarkupDiscount_def bind_result_def Let_def)
qed

section \<open>The wholesale price as a floor\<close>

text \<open>
  Claim C9: on the discount path with a promotional discount above 0 and at most 100, a
  cap of at least 0 and a reference price not below melt value, the calculated price is at
  least the wholesale price rounded half up to an integer, capped or not.
\<close>

theorem never_below_wholesale:
  assumes "s \<noteq> 0" "m \<noteq> 0" "w \<noteq> 0" "a \<noteq> 0"
    and "0 < p" "p \<le> 100" "0 \<le> mx"
    and "tier0PriceDecimal t0v (Fin (s * m)) = Inr (Fin t0)"
    and "0 \<le> t0 - s * a"
  shows "\<exists>r c. calculatePricesWithMarkupDiscount
           \<lparr>promoMarkupDiscount = Number (Fin p), spotPrice = Number (Fin s),
            wholesaleMarkup = Number (Fin w), markupByTier = Number (Fin m),
            actualMetalWeight = Number (Fin a), tier0Price = t0v,
            maximumPremiumDiscount = Number (Fin mx)\<rparr> = Inr r
         \<and> calculatedPrice r = Fin c \<and> round_half_up 0 (s * w) \<le> c"
proof -
  let ?h = "max (s * m - s * w) 0"
  let ?f = "s * w + ?h * (1 - p / 100)"
  let ?prem = "t0 - s * a"
  let ?v = "discountBeforeCap (Fin s) (Fin w) (Fin a) (Fin p) (Fin (s * m)) (Fin t0)"
  have pnz: "p \<noteq> 0" using assms(5) by simp
  have "0 \<le> ?h * (1 - p / 100)"
    using assms(6) by (intro mult_nonneg_nonneg) simp_all
  then have f_ge: "s * w \<le> ?f" by simp
  have "\<exists>x. discountedFinalPrice (applyCap ?v (Fin mx) (Fin t0)) = Fin x \<and> s * w \<le> x"
  proof (cases "greaterThan_dec (totalDiscountPercent_dec ?v) (Fin mx)")
    case False
    then have "applyCap ?v (Fin mx) (Fin t0) = ?v" by (simp add: applyCap_def)
    then show ?thesis using f_ge by (simp add: discountBeforeCap_Fin)
  next
    case True
    then have nz: "?prem \<noteq> 0" and gt: "mx < (t0 - ?f) / ?prem * 100"
      using assms(7) by (auto simp add: discountBeforeCap_Fin split: if_splits)
    from nz assms(9) have pos: "0 < ?prem" by simp
    from gt pos have "mx * ?prem < (t0 - ?f) * 100"
      by (simp add: pos_less_divide_eq)
    then have "?prem * mx / 100 < t0 - ?f" by (simp add: mult.commute)
    then have "s * w \<le> t0 - ?prem * mx / 100" using f_ge by linarith
    moreover have "discountedFinalPrice (applyCap ?v (Fin mx) (Fin t0)) = Fin (t0 - ?prem * mx / 100)"
      using True by (simp add: applyCap_def Let_def discountBeforeCap_Fin split: if_splits)
    ultimately show ?thesis by simp
  qed
  then obtain x where x: "discountedFinalPrice (applyCap ?v (Fin mx) (Fin t0)) = Fin x" "s * w \<le> x"
    by blast
  from x(2) have "round_half_up 0 (s * w) \<le> round_half_up 0 x"
    by (rule round_half_up_mono)
  then show ?thesis
    using discount_path_result [OF assms(1,2) pnz assms(3,4,8), of "Fin mx"] x(1) by simp
qed

text \<open>The capped case of the test suite: calculated price 8405 against wholesale 5534.\<close>

theorem never_below_wholesale_witness:
  "\<exists>r c. calculatePricesWithMarkupDiscount
           \<lparr>promoMarkupDiscount = Number (Fin 100), spotPrice = Number (Fin 4944),
            wholesaleMarkup = Number (Fin (1119394649 / 1000000000)),
            markupByTier = Number (Fin 2),
            actualMetalWeight = Number (Fin 1), tier0Price = Number (Fin 9888),
            maximumPremiumDiscount = Number (Fin 30)\<rparr> = Inr r
         \<and> calculatedPrice r = Fin c \<and> 5534 \<le> c"
proof -
  have t0: "tier0PriceDecimal (Number (Fin 9888)) (Fin (4944 * 2)) = Inr (Fin 9888)"
    by (simp add: tier0PriceDecimal_def)
  have r: "round_half_up 0 (4944 * (1119394649 / 1000000000)) = 5534"
    by (simp add: round_half_up_def floor_rat_numeral)
  show ?thesis
    using never_below_wholesale [of 4944 2 "1119394649 / 1000000000" 1 100 30
        "Number (Fin 9888)" 9888] t0 r
    by auto
qed

section \<open>A negative total discount\<close>

text \<open>
  Claim C10: there is a discount-path input whose \<open>tier0Price\<close> is supplied and strictly
  below the discounted final price, for which the returned \<open>totalDiscount\<close> is strictly
  negative and the calculated price strictly above \<open>tier0Price\<close>: reference price 2100
  against a discounted price of 2140 gives a total discount of -40.
\<close>

theorem negative_total_discount:
  "reachesDiscountPath
     \<lparr>promoMarkupDiscount = Number (Fin 20), spotPrice = Number (Fin 2000),
      wholesaleMarkup = Number (Fin (95 / 100)), markupByTier = Number (Fin (11 / 10)),
      actualMetalWeight = Number (Fin 1), tier0Price = Number (Fin 2100),
      maximumPremiumDiscount = Number (Fin 50)\<rparr>
   \<and> lessThan_dec (Fin 2100)
       (discountedFinalPrice (discountBeforeCap (Fin 2000) (Fin (95 / 100)) (Fin 1) (Fin 20)
          (times_dec (Fin 2000) (Fin (11 / 10))) (Fin 2100)))
   \<and> calculatePricesWithMarkupDiscount
     \<lparr>promoMarkupDiscount = Number (Fin 20), spotPrice = Number (Fin 2000),
      wholesaleMarkup = Number (Fin (95 / 100)), markupByTier = Number (Fin (11 / 10)),
      actualMetalWeight = Number (Fin 1), tier0Price = Number (Fin 2100),
      maximumPremiumDiscount = Number (Fin 50)\<rparr>
   = Inr \<lparr>originalPrice = Fin 2200, calculatedPrice = Fin 2140, totalDiscount = Fin (- 40),
          totalDiscountPercent = Fin (- 40)\<rparr>
   \<and> lessThan_dec (Fin (- 40)) (Fin 0) \<and> greaterThan_dec (Fin 2140) (Fin 2100)"
  by (simp add: calc_defs reachesDiscountPath_def)

theorem negative_total_discount_witness:
  "\<exists>input r t0. reachesDiscountPath input \<and> tier0Price input = Number (Fin t0) \<and> t0 \<noteq> 0
     \<and> calculatePricesWithMarkupDiscount input = Inr r
     \<and> lessThan_dec (totalDiscount r) (Fin 0)
     \<and> greaterThan_dec (calculatedPrice r) (Fin t0)"
proof -
  let ?i = "\<lparr>promoMarkupDiscount = Number (Fin 20), spotPrice = Number (Fin 2000),
      wholesaleMarkup = Number (Fin (95 / 100)), markupByTier = Number (Fin (11 / 10)),
      actualMetalWeight = Number (Fin 1), tier0Price = Number (Fin 2100),
      maximumPremiumDiscount = Number (Fin 50)\<rparr>"
  let ?r = "\<lparr>originalPrice = Fin 2200, calculatedPrice = Fin 2140, totalDiscount = Fin (- 40),
          totalDiscountPercent = Fin (- 40)\<rparr>"
  have "reachesDiscountPath ?i \<and> tier0Price ?i = Number (Fin 2100) \<and> (2100::rat) \<noteq> 0
     \<and> calculatePricesWithMarkupDiscount ?i = Inr ?r
     \<and> lessThan_dec (totalDiscount ?r) (Fin 0)
     \<and> greaterThan_dec (calculatedPrice ?r) (Fin 2100)"
    using negative_total_discount by simp
  then show ?thesis by blast
qed

end
